theory Spec2Isabelle
  imports Main
begin

section \<open>Data model of \<^verbatim>\<open>src/utils/runtime.ts\<close>\<close>

text \<open>
  A JavaScript string is modelled as a \<^typ>\<open>string\<close>. An optional property
  (\<^verbatim>\<open>stdioFunction?: string\<close>) is an \<^typ>\<open>'a option\<close>: \<^term>\<open>None\<close> is the property
  being absent (reading it gives \<^verbatim>\<open>undefined\<close>, and \<^verbatim>\<open>"key" in obj\<close> is false),
  \<^term>\<open>Some v\<close> is the property being present with value \<^term>\<open>v\<close>.

  \<^verbatim>\<open>ConnectionInfo\<close> is declared by the registry package, outside this repository; the
  record has the three properties that \<^verbatim>\<open>runtime.ts\<close> reads.
\<close>

record ConnectionInfo =
  type :: string
  stdioFunction :: "string option"
  deploymentUrl :: "string option"

text \<open>The parameter of \<^verbatim>\<open>isRemote\<close>: \<^verbatim>\<open>{ connections: ConnectionInfo[]; remote?: boolean }\<close>.\<close>

record server =
  connections :: "ConnectionInfo list"
  remote :: "bool option"

subsection \<open>\<^verbatim>\<open>String.prototype.includes\<close>\<close>

text \<open>
  \<^verbatim>\<open>s.includes(t)\<close> searches \<^verbatim>\<open>s\<close> from position 0 for the first index at which the
  next \<^verbatim>\<open>t.length\<close> code units are \<^verbatim>\<open>t\<close>. The recursion tries the current position and
  then moves one code unit to the right; at the end of \<^verbatim>\<open>s\<close> only the empty search
  string is found.
\<close>

fun str_includes :: "string \<Rightarrow> string \<Rightarrow> bool" where
  "str_includes [] t = (t = [])"
| "str_includes (c # s) t = (take (length t) (c # s) = t \<or> str_includes s t)"

subsection \<open>Runtime detection\<close>

text \<open>
  \<^verbatim>\<open>connection.type === "stdio" && connection.stdioFunction?.includes("uvx")\<close>: the
  optional chain yields \<^verbatim>\<open>undefined\<close> (falsy) when \<^verbatim>\<open>stdioFunction\<close> is absent, so the
  function returns \<^verbatim>\<open>false\<close> there.
\<close>

definition isUVRequired :: "ConnectionInfo \<Rightarrow> bool" where
  "isUVRequired connection =
     (if type connection = ''stdio'' \<and>
         (case stdioFunction connection of
            None \<Rightarrow> False
          | Some f \<Rightarrow> str_includes f ''uvx'')
      then True
      else False)"

definition isBunRequired :: "ConnectionInfo \<Rightarrow> bool" where
  "isBunRequired connection =
     (if type connection = ''stdio'' \<and>
         (case stdioFunction connection of
            None \<Rightarrow> False
          | Some f \<Rightarrow> str_includes f ''bunx'')
      then True
      else False)"

text \<open>
  \<^verbatim>\<open>server.connections.some((conn) => conn.type === "http" && "deploymentUrl" in conn)
  && server.remote !== false\<close>.
\<close>

definition isRemote :: "server \<Rightarrow> bool" where
  "isRemote s =
     (list_ex (\<lambda>conn. type conn = ''http'' \<and> deploymentUrl conn \<noteq> None) (connections s)
      \<and> remote s \<noteq> Some False)"

subsection \<open>Environment of a launched server\<close>

text \<open>
  \<^verbatim>\<open>Record<string, string>\<close> is a map from names to values. \<^verbatim>\<open>getDefaultEnvironment\<close>
  belongs to the MCP SDK, outside this repository: what it returns is the parameter
  \<open>defaultEnv\<close>. The argument is optional, with default \<^verbatim>\<open>{}\<close>. The object spread
  \<^verbatim>\<open>{ ...defaultEnv, ...baseEnv }\<close> copies the properties of \<^verbatim>\<open>defaultEnv\<close> and then those
  of \<^verbatim>\<open>baseEnv\<close>, the later ones replacing the earlier ones of the same name.
\<close>

definition getRuntimeEnvironment ::
  "(string \<rightharpoonup> string) \<Rightarrow> (string \<rightharpoonup> string) option \<Rightarrow> (string \<rightharpoonup> string)" where
  "getRuntimeEnvironment defaultEnv baseEnvArg =
     (let baseEnv = (case baseEnvArg of None \<Rightarrow> Map.empty | Some b \<Rightarrow> b)
      in defaultEnv ++ baseEnv)"

section \<open>The process and its surroundings\<close>

text \<open>
  The functions below run commands, ask the user, print, and read and write files. These
  effects are made explicit by passing a \<open>world\<close>: what the surroundings of the process
  will answer (fields that the program only reads), what the program can change (the saved
  API key, the configuration files), and the sequence of the external calls it has made.

  A thrown JavaScript value is an \<open>exn\<close>: an \<^verbatim>\<open>Error\<close> object with its message, or any
  other value with its text. A call that throws (a promise that rejects) returns \<open>Inl\<close>.
\<close>

datatype exn = Error string | Thrown string

text \<open>\<^verbatim>\<open>error instanceof Error ? error.message : String(error)\<close>\<close>

fun error_text :: "exn \<Rightarrow> string" where
  "error_text (Error message) = message"
| "error_text (Thrown v) = v"

datatype 'c event =
    Exec string
  | Confirm string
  | Password string
  | Verbose string
  | ConsoleLog string
  | ConsoleWarn string
  | ConsoleError string
  | SpinnerStart string
  | SpinnerSucceed string
  | SpinnerFail string
  | GetApiKey
  | SetApiKey string
  | ReadConfig string
  | WriteConfig 'c string
  | PromptForRestart string

record 'c world =
  platform :: string
  execOutcome :: "string \<Rightarrow> exn option"
  confirmOutcome :: "string \<Rightarrow> exn + bool"
  passwordOutcome :: "string \<Rightarrow> exn + string"
  savedApiKey :: "string option"
  settingsWritable :: bool
  configFile :: "string \<Rightarrow> exn + 'c"
  writeError :: "string \<Rightarrow> exn option"
  restartError :: "string \<Rightarrow> exn option"
  events :: "'c event list"

text \<open>
  \<^item> \<open>platform\<close>: \<^verbatim>\<open>process.platform\<close>;
  \<^item> \<open>execOutcome command\<close>: \<open>None\<close> when the command exits with code 0, \<open>Some e\<close> when
    \<^verbatim>\<open>execAsync(command)\<close> rejects with \<open>e\<close>;
  \<^item> \<open>confirmOutcome message\<close>, \<open>passwordOutcome message\<close>: what the user answers to the
    prompt with that message (\<open>Inl\<close> when the prompt itself rejects);
  \<^item> \<open>savedApiKey\<close>: the API key of the local settings, if any; \<open>settingsWritable\<close>: whether
    saving to the local settings succeeds;
  \<^item> \<open>configFile client\<close>: what reading the configuration of \<open>client\<close> gives;
    \<open>writeError client\<close>: the error of writing it, if any;
  \<^item> \<open>restartError client\<close>: the error of the restart prompt, if any;
  \<^item> \<open>events\<close>: the external calls made so far, oldest first.
\<close>

subsection \<open>Sequencing, \<^verbatim>\<open>throw\<close> and \<^verbatim>\<open>try\<close>/\<^verbatim>\<open>catch\<close>\<close>

definition ret :: "'a \<Rightarrow> 'w \<Rightarrow> (exn + 'a) \<times> 'w" where
  "ret x w = (Inr x, w)"

text \<open>\<open>andThen m f\<close> runs \<open>m\<close> and passes its value to \<open>f\<close>; an exception of \<open>m\<close> skips \<open>f\<close>.\<close>

definition andThen ::
  "('w \<Rightarrow> (exn + 'a) \<times> 'w) \<Rightarrow> ('a \<Rightarrow> 'w \<Rightarrow> (exn + 'b) \<times> 'w) \<Rightarrow> 'w \<Rightarrow> (exn + 'b) \<times> 'w" where
  "andThen m f w = (case m w of (Inl e, w') \<Rightarrow> (Inl e, w') | (Inr x, w') \<Rightarrow> f x w')"

text \<open>\<open>tryCatch m h\<close> runs \<open>m\<close>; an exception of \<open>m\<close> is passed to the handler \<open>h\<close>.\<close>

definition tryCatch ::
  "('w \<Rightarrow> (exn + 'a) \<times> 'w) \<Rightarrow> (exn \<Rightarrow> 'w \<Rightarrow> (exn + 'a) \<times> 'w) \<Rightarrow> 'w \<Rightarrow> (exn + 'a) \<times> 'w" where
  "tryCatch m h w = (case m w of (Inl e, w') \<Rightarrow> h e w' | (Inr x, w') \<Rightarrow> (Inr x, w'))"

subsection \<open>External calls\<close>

definition emit :: "'c event \<Rightarrow> 'c world \<Rightarrow> 'c world" where
  "emit e w = w\<lparr>events := events w @ [e]\<rparr>"

definition process_platform :: "'c world \<Rightarrow> (exn + string) \<times> 'c world" where
  "process_platform w = (Inr (platform w), w)"

text \<open>\<^verbatim>\<open>execAsync = promisify(exec)\<close>: rejects when the command fails.\<close>

definition execAsync :: "string \<Rightarrow> 'c world \<Rightarrow> (exn + unit) \<times> 'c world" where
  "execAsync command w =
     (case execOutcome w command of
        None \<Rightarrow> (Inr (), emit (Exec command) w)
      | Some e \<Rightarrow> (Inl e, emit (Exec command) w))"

text \<open>\<^verbatim>\<open>inquirer.prompt\<close> with one question of type \<^verbatim>\<open>confirm\<close>.\<close>

definition inquirer_confirm :: "string \<Rightarrow> 'c world \<Rightarrow> (exn + bool) \<times> 'c world" where
  "inquirer_confirm message w = (confirmOutcome w message, emit (Confirm message) w)"

text \<open>
  \<^verbatim>\<open>inquirer.prompt\<close> with one question of type \<^verbatim>\<open>password\<close>. The library asks again
  until the question's \<^verbatim>\<open>validate\<close> accepts the input; \<open>passwordOutcome\<close> is the input that
  it finally returns.
\<close>

definition inquirer_password :: "string \<Rightarrow> 'c world \<Rightarrow> (exn + string) \<times> 'c world" where
  "inquirer_password message w = (passwordOutcome w message, emit (Password message) w)"

text \<open>
  Modelled from the spec: \<^verbatim>\<open>verbose\<close> of \<^verbatim>\<open>src/logger\<close>, which is not among the sources.
  The spec says that the flag \<^verbatim>\<open>--verbose\<close> shows detailed logs; the call is recorded with
  its message whether or not the flag is set.
\<close>

definition verbose :: "string \<Rightarrow> 'c world \<Rightarrow> (exn + unit) \<times> 'c world" where
  "verbose message w = (Inr (), emit (Verbose message) w)"

text \<open>Printing. The colours that \<^verbatim>\<open>chalk\<close> adds are not part of the recorded text.\<close>

definition console_log :: "string \<Rightarrow> 'c world \<Rightarrow> (exn + unit) \<times> 'c world" where
  "console_log message w = (Inr (), emit (ConsoleLog message) w)"

definition console_warn :: "string \<Rightarrow> 'c world \<Rightarrow> (exn + unit) \<times> 'c world" where
  "console_warn message w = (Inr (), emit (ConsoleWarn message) w)"

text \<open>\<^verbatim>\<open>console.error(a, b)\<close> prints its two arguments separated by a space.\<close>

definition console_error :: "string \<Rightarrow> string \<Rightarrow> 'c world \<Rightarrow> (exn + unit) \<times> 'c world" where
  "console_error a b w = (Inr (), emit (ConsoleError (a @ '' '' @ b)) w)"

definition spinner_start :: "string \<Rightarrow> 'c world \<Rightarrow> (exn + unit) \<times> 'c world" where
  "spinner_start message w = (Inr (), emit (SpinnerStart message) w)"

definition spinner_succeed :: "string \<Rightarrow> 'c world \<Rightarrow> (exn + unit) \<times> 'c world" where
  "spinner_succeed message w = (Inr (), emit (SpinnerSucceed message) w)"

definition spinner_fail :: "string \<Rightarrow> 'c world \<Rightarrow> (exn + unit) \<times> 'c world" where
  "spinner_fail message w = (Inr (), emit (SpinnerFail message) w)"

text \<open>
  Modelled from the spec: \<^verbatim>\<open>getApiKey\<close> of \<^verbatim>\<open>src/smithery-config\<close>, which is not among
  the sources. The spec says that the API key is persisted to a local config file;
  \<^verbatim>\<open>ensureApiKey\<close> uses the result as a string or \<^verbatim>\<open>undefined\<close>.
\<close>

definition getApiKey :: "'c world \<Rightarrow> (exn + string option) \<times> 'c world" where
  "getApiKey w = (Inr (savedApiKey w), emit GetApiKey w)"

text \<open>
  Modelled from the spec: \<^verbatim>\<open>setApiKey\<close> of \<^verbatim>\<open>src/smithery-config\<close>, which is not among
  the sources. It persists the key to the local config file; \<^verbatim>\<open>ensureApiKey\<close> reads
  \<^verbatim>\<open>success\<close> from its result, which is the value returned here.
\<close>

definition setApiKey :: "string \<Rightarrow> 'c world \<Rightarrow> (exn + bool) \<times> 'c world" where
  "setApiKey apiKey w =
     (if settingsWritable w
      then (Inr True, (emit (SetApiKey apiKey) w)\<lparr>savedApiKey := Some apiKey\<rparr>)
      else (Inr False, emit (SetApiKey apiKey) w))"

text \<open>
  Modelled from the spec: \<^verbatim>\<open>readConfig\<close> of \<^verbatim>\<open>src/client-config\<close>, which is not among
  the sources. The spec says that the client's configuration document is read from disk
  at the start of an install, and that a failure of the read propagates.
\<close>

definition readConfig :: "string \<Rightarrow> 'c world \<Rightarrow> (exn + 'c) \<times> 'c world" where
  "readConfig client w = (configFile w client, emit (ReadConfig client) w)"

text \<open>
  Modelled from the spec: \<^verbatim>\<open>promptForRestart\<close> of \<^verbatim>\<open>src/utils/client\<close>, which is not
  among the sources: it asks the user to restart their client.
\<close>

definition promptForRestart :: "string \<Rightarrow> 'c world \<Rightarrow> (exn + unit) \<times> 'c world" where
  "promptForRestart client w =
     (case restartError w client of
        Some e \<Rightarrow> (Inl e, emit (PromptForRestart client) w)
      | None \<Rightarrow> (Inr (), emit (PromptForRestart client) w))"

text \<open>What a sequence of events holds: the commands run, and the configurations written.\<close>

fun commands :: "'c event list \<Rightarrow> string list" where
  "commands [] = []"
| "commands (Exec command # es) = command # commands es"
| "commands (_ # es) = commands es"

fun written :: "'c event list \<Rightarrow> ('c \<times> string) list" where
  "written [] = []"
| "written (WriteConfig config client # es) = (config, client) # written es"
| "written (_ # es) = written es"

section \<open>Installing the prerequisites (\<^verbatim>\<open>src/utils/runtime.ts\<close>)\<close>

definition checkUVInstalled :: "'c world \<Rightarrow> (exn + bool) \<times> 'c world" where
  "checkUVInstalled =
     tryCatch
       (andThen (execAsync ''uvx --version'') (\<lambda>_. ret True))
       (\<lambda>error. ret False)"

text \<open>The message of success starts with a check mark, written here in UTF-8.\<close>

definition promptForUVInstall :: "'c world \<Rightarrow> (exn + bool) \<times> 'c world" where
  \<open>promptForUVInstall =
     andThen
       (inquirer_confirm
          ''UV package manager is required for Python MCP servers. Would you like to install it?'')
       (\<lambda>shouldInstall.
          if \<not> shouldInstall then
            andThen
              (console_warn
                 ''UV installation was declined. You can install it manually from https://astral.sh/uv'')
              (\<lambda>_. ret False)
          else
            andThen (spinner_start ''Installing UV package manager...'') (\<lambda>_.
            tryCatch
              (andThen process_platform (\<lambda>process_platform.
               andThen
                 (if process_platform = ''win32'' then
                    execAsync
                      ''powershell -ExecutionPolicy ByPass -c "irm https://astral.sh/uv/install.ps1 | iex"''
                  else
                    tryCatch
                      (execAsync ''curl -LsSf https://astral.sh/uv/install.sh | sh'')
                      (\<lambda>_. execAsync ''wget -qO- https://astral.sh/uv/install.sh | sh''))
                 (\<lambda>_.
               andThen
                 (spinner_succeed ([CHR 0xE2, CHR 0x9C, CHR 0x93] @ '' UV installed successfully''))
                 (\<lambda>_. ret True))))
              (\<lambda>error.
                 andThen
                   (spinner_fail
                      ''Failed to install UV. You can install it manually from https://astral.sh/uv'')
                   (\<lambda>_. ret False))))\<close>

definition checkBunInstalled :: "'c world \<Rightarrow> (exn + bool) \<times> 'c world" where
  "checkBunInstalled =
     tryCatch
       (andThen (execAsync ''bun --version'') (\<lambda>_. ret True))
       (\<lambda>error. ret False)"

definition promptForBunInstall :: "'c world \<Rightarrow> (exn + bool) \<times> 'c world" where
  \<open>promptForBunInstall =
     andThen
       (inquirer_confirm ''Bun is required for this operation. Would you like to install it?'')
       (\<lambda>shouldInstall.
          if \<not> shouldInstall then
            andThen
              (console_warn
                 ''Bun installation was declined. You can install it manually from https://bun.sh'')
              (\<lambda>_. ret False)
          else
            tryCatch
              (andThen (console_log ''Installing Bun...'') (\<lambda>_.
               andThen process_platform (\<lambda>process_platform.
               andThen
                 (if process_platform = ''win32'' then
                    execAsync ''powershell -c "irm bun.sh/install.ps1|iex"''
                  else
                    tryCatch
                      (andThen (console_log ''Attempting to install Bun via Homebrew...'') (\<lambda>_.
                       execAsync ''brew install oven-sh/bun/bun''))
                      (\<lambda>brewError.
                         andThen
                           (console_log
                              ''Homebrew installation failed, trying direct installation...'')
                           (\<lambda>_. execAsync ''curl -fsSL https://bun.sh/install | bash'')))
                 (\<lambda>_.
               andThen (console_log ''Bun installed successfully!'') (\<lambda>_. ret True)))))
              (\<lambda>error.
                 andThen (console_error ''Failed to install Bun:'' (error_text error)) (\<lambda>_.
                 andThen (console_log ''Please install Bun manually from https://bun.sh'') (\<lambda>_.
                 ret False))))\<close>

definition ensureUVInstalled :: "ConnectionInfo \<Rightarrow> 'c world \<Rightarrow> (exn + unit) \<times> 'c world" where
  "ensureUVInstalled connection =
     (if isUVRequired connection then
        andThen (verbose ''UV installation check required'') (\<lambda>_.
        andThen checkUVInstalled (\<lambda>uvInstalled.
          if \<not> uvInstalled then
            andThen promptForUVInstall (\<lambda>installed.
              if \<not> installed then
                console_warn ''UV is not installed. The server might fail to launch.''
              else ret ())
          else ret ()))
      else ret ())"

definition ensureBunInstalled :: "ConnectionInfo \<Rightarrow> 'c world \<Rightarrow> (exn + unit) \<times> 'c world" where
  "ensureBunInstalled connection =
     (if isBunRequired connection then
        andThen (verbose ''Bun installation check required'') (\<lambda>_.
        andThen checkBunInstalled (\<lambda>bunInstalled.
          if \<not> bunInstalled then
            andThen promptForBunInstall (\<lambda>installed.
              if \<not> installed then
                console_warn ''Bun is not installed. The server might fail to launch.''
              else ret ())
          else ret ()))
      else ret ())"

section \<open>The API key (\<^verbatim>\<open>src/utils/runtime.ts\<close>)\<close>

definition promptForApiKey :: "'c world \<Rightarrow> (exn + string) \<times> 'c world" where
  "promptForApiKey =
     inquirer_password
       ''Please enter your Smithery API key (get one for free from https://smithery.ai/account/api-keys):''"

text \<open>
  \<^verbatim>\<open>if (apiKey)\<close> on a value of type \<^verbatim>\<open>string | undefined\<close>: \<^verbatim>\<open>undefined\<close> and the empty
  string are falsy, every other string is truthy.
\<close>

fun truthy :: "string option \<Rightarrow> bool" where
  "truthy None = False"
| "truthy (Some s) = (s \<noteq> [])"

text \<open>Where \<open>truthy x\<close> holds, \<open>x\<close> is \<open>Some s\<close> and \<open>the x\<close> is that string.\<close>

definition ensureApiKey :: "string option \<Rightarrow> 'c world \<Rightarrow> (exn + string) \<times> 'c world" where
  "ensureApiKey apiKey =
     (if truthy apiKey then ret (the apiKey)
      else
        andThen getApiKey (\<lambda>savedApiKey.
          if truthy savedApiKey then ret (the savedApiKey)
          else
            andThen promptForApiKey (\<lambda>promptedApiKey.
            andThen (setApiKey promptedApiKey) (\<lambda>success.
            andThen
              (if \<not> success then
                 console_warn
                   ''Warning: Could not save API key to config. You may need to enter it again next time.''
               else ret ())
              (\<lambda>_. ret promptedApiKey)))))"

section \<open>Installing a server for a client (\<^verbatim>\<open>src/commands/installServerForClient.ts\<close>)\<close>

text \<open>
  A launch configuration is of TypeScript type \<^verbatim>\<open>any\<close>. The values are those that
  parsing JSON gives: a primitive (a string, a number, a boolean; its content is the type
  variable \<open>'p\<close>), \<^verbatim>\<open>null\<close>, or an ordinary object, which is the list of its own
  properties (an array is the object of its indices) and inherits from \<^verbatim>\<open>Object.prototype\<close>.
\<close>

datatype 'p js_value =
    Primitive 'p
  | Null
  | Object "(string \<times> 'p js_value) list"

text \<open>
  The object \<^verbatim>\<open>config.mcpServers\<close>: its own properties, a map from server names to
  launch configurations, and its internal slot \<^verbatim>\<open>[[Prototype]]\<close>. The object that parsing a
  file gives inherits from \<^verbatim>\<open>Object.prototype\<close>; the slot can also hold \<^verbatim>\<open>null\<close> or an
  ordinary object, given by its own properties.
\<close>

datatype 'p prototype_slot =
    ObjectPrototype
  | NullPrototype
  | ValuePrototype "(string \<times> 'p js_value) list"

record 'p js_object =
  properties :: "string \<rightharpoonup> 'p js_value"
  prototype :: "'p prototype_slot"

text \<open>
  The assignment \<^verbatim>\<open>obj[key] = v\<close> on such an object (\<^verbatim>\<open>OrdinarySet\<close> of ECMAScript).
  An own property of that name gets the new value. Otherwise the prototype chain is
  asked. The only property on the chain that is not a writable data property is the
  accessor \<^verbatim>\<open>__proto__\<close> of \<^verbatim>\<open>Object.prototype\<close>: the assignment reaches it when the key is
  \<^verbatim>\<open>__proto__\<close> and no object before \<^verbatim>\<open>Object.prototype\<close> on the chain has an own property
  of that name. Its setter creates no property: it makes an object or \<^verbatim>\<open>null\<close> the
  prototype of \<open>obj\<close> and ignores a primitive. In every other case the assignment creates
  the own property.
\<close>

definition reaches_proto_setter :: "'p prototype_slot \<Rightarrow> bool" where
  "reaches_proto_setter slot =
     (case slot of
        ObjectPrototype \<Rightarrow> True
      | NullPrototype \<Rightarrow> False
      | ValuePrototype props \<Rightarrow> ''__proto__'' \<notin> fst ` set props)"

definition js_set :: "'p js_object \<Rightarrow> string \<Rightarrow> 'p js_value \<Rightarrow> 'p js_object" where
  "js_set obj key v =
     (if key \<in> dom (properties obj) then obj\<lparr>properties := (properties obj)(key \<mapsto> v)\<rparr>
      else if key = ''__proto__'' \<and> reaches_proto_setter (prototype obj) then
        (case v of
           Primitive _ \<Rightarrow> obj
         | Null \<Rightarrow> obj\<lparr>prototype := NullPrototype\<rparr>
         | Object props \<Rightarrow> obj\<lparr>prototype := ValuePrototype props\<rparr>)
      else obj\<lparr>properties := (properties obj)(key \<mapsto> v)\<rparr>)"

text \<open>
  The configuration document of a client: an object with the property \<^verbatim>\<open>mcpServers\<close> and
  whatever other properties the file has, which are the extension \<open>more\<close> of the record.
\<close>

record 'p ClientConfig =
  mcpServers :: "'p js_object"

text \<open>
  Modelled from the spec: what a client's JSON file holds of a configuration object, for
  \<^verbatim>\<open>writeConfig\<close> below. The spec says that the persisted state is one JSON file per client.
  JSON text holds the own properties of an object, so reading the file again gives an
  \<^verbatim>\<open>mcpServers\<close> that inherits from \<^verbatim>\<open>Object.prototype\<close>.
\<close>

definition as_stored :: "('p, 'r) ClientConfig_scheme \<Rightarrow> ('p, 'r) ClientConfig_scheme" where
  "as_stored config = config\<lparr>mcpServers := (mcpServers config)\<lparr>prototype := ObjectPrototype\<rparr>\<rparr>"

text \<open>
  Modelled from the spec: \<^verbatim>\<open>writeConfig\<close> of \<^verbatim>\<open>src/client-config\<close>, which is not among
  the sources. The spec says that the document is written back in a single file-write
  call, and that a failure of the write propagates. The call is recorded with the object
  that it is given. A write that fails leaves the recorded content of the file as it was.
\<close>

definition writeConfig ::
  "('p, 'r) ClientConfig_scheme \<Rightarrow> string \<Rightarrow>
   ('p, 'r) ClientConfig_scheme world \<Rightarrow> (exn + unit) \<times> ('p, 'r) ClientConfig_scheme world" where
  "writeConfig config client w =
     (case writeError w client of
        Some e \<Rightarrow> (Inl e, emit (WriteConfig config client) w)
      | None \<Rightarrow>
          (Inr (), (emit (WriteConfig config client) w)
                     \<lparr>configFile := (configFile w)(client := Inr (as_stored config))\<rparr>))"

record 'p InstallServerForClientParams =
  client :: string
  qualifiedName :: string
  serverConfig :: "'p js_value"

text \<open>
  \<^verbatim>\<open>getServerName\<close> of \<^verbatim>\<open>src/utils/config\<close> is not among the sources, and the spec says
  only that it normalizes the name: it is a parameter.
\<close>

definition installServerForClient ::
  "(string \<Rightarrow> string) \<Rightarrow> 'p InstallServerForClientParams \<Rightarrow>
   ('p, 'r) ClientConfig_scheme world \<Rightarrow> (exn + unit) \<times> ('p, 'r) ClientConfig_scheme world" where
  "installServerForClient getServerName params =
     andThen (verbose (''Reading configuration for client: '' @ client params)) (\<lambda>_.
     andThen (readConfig (client params)) (\<lambda>config.
     andThen (verbose ''Normalizing server ID...'') (\<lambda>_.
     let serverName = getServerName (qualifiedName params) in
     andThen (verbose (''Normalized server ID: '' @ serverName)) (\<lambda>_.
     andThen (verbose ''Updating client configuration...'') (\<lambda>_.
     let config = config\<lparr>mcpServers := js_set (mcpServers config) serverName (serverConfig params)\<rparr> in
     andThen (verbose ''Writing updated configuration...'') (\<lambda>_.
     andThen (writeConfig config (client params)) (\<lambda>_.
     andThen (verbose ''Configuration successfully written'') (\<lambda>_.
     andThen
       (console_log (qualifiedName params @ '' successfully installed for '' @ client params))
       (\<lambda>_.
     andThen (verbose ''Prompting for client restart...'') (\<lambda>_.
     andThen (promptForRestart (client params)) (\<lambda>_.
     verbose ''Installation process completed'')))))))))))"

section \<open>Observations and the spec's description of the installers\<close>

text \<open>The commands that running \<open>f\<close> in the world \<open>w\<close> adds to those already run.\<close>

definition commands_run :: "('c world \<Rightarrow> 'a \<times> 'c world) \<Rightarrow> 'c world \<Rightarrow> string list" where
  "commands_run f w = drop (length (commands (events w))) (commands (events (snd (f w))))"

text \<open>Names for the questions and the commands of \<^verbatim>\<open>runtime.ts\<close>.\<close>

abbreviation uv_question :: string where
  "uv_question \<equiv>
     ''UV package manager is required for Python MCP servers. Would you like to install it?''"

abbreviation bun_question :: string where
  "bun_question \<equiv> ''Bun is required for this operation. Would you like to install it?''"

abbreviation api_key_question :: string where
  "api_key_question \<equiv>
     ''Please enter your Smithery API key (get one for free from https://smithery.ai/account/api-keys):''"

abbreviation uv_powershell :: string where
  \<open>uv_powershell \<equiv>
     ''powershell -ExecutionPolicy ByPass -c "irm https://astral.sh/uv/install.ps1 | iex"''\<close>

abbreviation uv_curl :: string where
  "uv_curl \<equiv> ''curl -LsSf https://astral.sh/uv/install.sh | sh''"

abbreviation uv_wget :: string where
  "uv_wget \<equiv> ''wget -qO- https://astral.sh/uv/install.sh | sh''"

abbreviation bun_powershell :: string where
  \<open>bun_powershell \<equiv> ''powershell -c "irm bun.sh/install.ps1|iex"''\<close>

abbreviation bun_brew :: string where
  "bun_brew \<equiv> ''brew install oven-sh/bun/bun''"

abbreviation bun_curl :: string where
  "bun_curl \<equiv> ''curl -fsSL https://bun.sh/install | bash''"

text \<open>
  The selection of the install command in the words of the spec: a PowerShell
  remote-script execution on Windows, and elsewhere a curl download piped to a shell,
  followed by a wget download piped to a shell exactly when the curl command fails.
\<close>

definition powershell_script :: "string \<Rightarrow> bool" where
  "powershell_script c = (take 11 c = ''powershell '' \<and> str_includes c ''iex'')"

definition curl_piped_to_shell :: "string \<Rightarrow> bool" where
  "curl_piped_to_shell c =
     (take 5 c = ''curl '' \<and> (str_includes c ''| sh'' \<or> str_includes c ''| bash''))"

definition wget_piped_to_shell :: "string \<Rightarrow> bool" where
  "wget_piped_to_shell c =
     (take 5 c = ''wget '' \<and> (str_includes c ''| sh'' \<or> str_includes c ''| bash''))"

definition spec_install_selection :: "'c world \<Rightarrow> string list \<Rightarrow> bool" where
  "spec_install_selection w cmds =
     (if platform w = ''win32'' then
        (case cmds of [p] \<Rightarrow> powershell_script p | _ \<Rightarrow> False)
      else
        (case cmds of
           [c] \<Rightarrow> curl_piped_to_shell c \<and> execOutcome w c = None
         | [c, g] \<Rightarrow> curl_piped_to_shell c \<and> execOutcome w c \<noteq> None \<and> wget_piped_to_shell g
         | _ \<Rightarrow> False))"

text \<open>The install script of each runtime fails: every command that the installer tries fails.\<close>

definition uv_install_fails :: "'c world \<Rightarrow> bool" where
  "uv_install_fails w =
     (if platform w = ''win32'' then execOutcome w uv_powershell \<noteq> None
      else execOutcome w uv_curl \<noteq> None \<and> execOutcome w uv_wget \<noteq> None)"

definition bun_install_fails :: "'c world \<Rightarrow> bool" where
  "bun_install_fails w =
     (if platform w = ''win32'' then execOutcome w bun_powershell \<noteq> None
      else execOutcome w bun_brew \<noteq> None \<and> execOutcome w bun_curl \<noteq> None)"

section \<open>Concrete inputs\<close>

definition uvx_connection :: ConnectionInfo where
  "uvx_connection =
     \<lparr>type = ''stdio'', stdioFunction = Some ''uvx mcp-server-fetch'', deploymentUrl = None\<rparr>"

definition bunx_connection :: ConnectionInfo where
  "bunx_connection =
     \<lparr>type = ''stdio'', stdioFunction = Some ''bunx mcp-files'', deploymentUrl = None\<rparr>"

definition http_connection :: ConnectionInfo where
  "http_connection =
     \<lparr>type = ''http'', stdioFunction = None, deploymentUrl = Some ''https://server.example/mcp''\<rparr>"

text \<open>A machine that is not Windows, where every command fails and the user says yes.\<close>

definition failing_unix_world :: "unit world" where
  "failing_unix_world =
     \<lparr>platform = ''linux'',
      execOutcome = (\<lambda>_. Some (Error ''Command failed'')),
      confirmOutcome = (\<lambda>_. Inr True),
      passwordOutcome = (\<lambda>_. Inr ''key-from-prompt''),
      savedApiKey = Some ''saved-key'',
      settingsWritable = True,
      configFile = (\<lambda>_. Inl (Error ''ENOENT'')),
      writeError = (\<lambda>_. None),
      restartError = (\<lambda>_. None),
      events = []\<rparr>"

text \<open>An instance of the parameter \<open>getServerName\<close>: it drops a leading \<^verbatim>\<open>@scope/\<close>.\<close>

definition strip_scope :: "string \<Rightarrow> string" where
  "strip_scope q =
     (if take 1 q = ''@'' \<and> CHR ''/'' \<in> set q
      then drop 1 (dropWhile (\<lambda>c. c \<noteq> CHR ''/'') q) else q)"

text \<open>
  A configuration document with two servers and one other property, and a machine
  where the clients \<^verbatim>\<open>claude\<close> and \<^verbatim>\<open>cursor\<close> have this document, the file of \<^verbatim>\<open>cursor\<close>
  cannot be written, no other client has a readable file, and no API key is saved.
\<close>

definition claude_config :: "(string, string) ClientConfig_scheme" where
  "claude_config =
     \<lparr>mcpServers =
        \<lparr>properties =
           [''fetch'' \<mapsto> Object [(''command'', Primitive ''uvx''), (''args'', Object [(''0'', Primitive ''old-fetch'')])],
            ''files'' \<mapsto> Object [(''command'', Primitive ''npx''), (''args'', Object [(''0'', Primitive ''files'')])]],
         prototype = ObjectPrototype\<rparr>,
      \<dots> = ''theme: dark''\<rparr>"

definition claude_world :: "(string, string) ClientConfig_scheme world" where
  "claude_world =
     \<lparr>platform = ''darwin'',
      execOutcome = (\<lambda>_. None),
      confirmOutcome = (\<lambda>_. Inr False),
      passwordOutcome = (\<lambda>_. Inr ''key-from-prompt''),
      savedApiKey = None,
      settingsWritable = True,
      configFile = (\<lambda>c. if c = ''claude'' \<or> c = ''cursor'' then Inr claude_config
                        else Inl (Error ''ENOENT'')),
      writeError = (\<lambda>c. if c = ''cursor'' then Some (Error ''EACCES'') else None),
      restartError = (\<lambda>_. None),
      events = []\<rparr>"

text \<open>The launch configuration \<^verbatim>\<open>{"command": "npx", "args": ["-y", "fetch"]}\<close>.\<close>

definition npx_fetch :: "string js_value" where
  "npx_fetch =
     Object [(''command'', Primitive ''npx''),
             (''args'', Object [(''0'', Primitive ''-y''), (''1'', Primitive ''fetch'')])]"

definition fetch_params :: "string InstallServerForClientParams" where
  "fetch_params =
     \<lparr>client = ''claude'', qualifiedName = ''@acme/fetch'', serverConfig = npx_fetch\<rparr>"

definition windsurf_params :: "string InstallServerForClientParams" where
  "windsurf_params =
     \<lparr>client = ''windsurf'', qualifiedName = ''@acme/fetch'', serverConfig = npx_fetch\<rparr>"

definition cursor_params :: "string InstallServerForClientParams" where
  "cursor_params =
     \<lparr>client = ''cursor'', qualifiedName = ''@acme/fetch'', serverConfig = npx_fetch\<rparr>"

text \<open>The install of a server whose name is \<^verbatim>\<open>__proto__\<close>.\<close>

text \<open>
  The configuration of \<^verbatim>\<open>claude\<close> with that launch configuration as the prototype of
  \<^verbatim>\<open>mcpServers\<close>, and the own properties as they are.
\<close>

definition claude_config_proto :: "(string, string) ClientConfig_scheme" where
  "claude_config_proto =
     claude_config
       \<lparr>mcpServers := (mcpServers claude_config)
          \<lparr>prototype := ValuePrototype
             [(''command'', Primitive ''npx''),
              (''args'', Object [(''0'', Primitive ''-y''), (''1'', Primitive ''fetch'')])]\<rparr>\<rparr>"

definition proto_params :: "string InstallServerForClientParams" where
  "proto_params =
     \<lparr>client = ''claude'', qualifiedName = ''__proto__'', serverConfig = npx_fetch\<rparr>"

section \<open>Basic facts\<close>

lemma str_includes_iff: "str_includes s t \<longleftrightarrow> (\<exists>ps ss. s = ps @ t @ ss)"
proof (induction s)
  case Nil
  show ?case by auto
next
  case (Cons c s)
  show ?case
  proof
    assume "str_includes (c # s) t"
    then consider "take (length t) (c # s) = t" | "str_includes s t" by auto
    then show "\<exists>ps ss. c # s = ps @ t @ ss"
    proof cases
      case 1
      then have "c # s = [] @ t @ drop (length t) (c # s)"
        by (metis append_Nil append_take_drop_id)
      then show ?thesis by blast
    next
      case 2
      then obtain ps ss where "s = ps @ t @ ss" using Cons.IH by blast
      then have "c # s = (c # ps) @ t @ ss" by simp
      then show ?thesis by blast
    qed
  next
    assume "\<exists>ps ss. c # s = ps @ t @ ss"
    then obtain ps ss where eq: "c # s = ps @ t @ ss" by blast
    show "str_includes (c # s) t"
    proof (cases ps)
      case Nil
      then have "take (length t) (c # s) = t" using eq by simp
      then show ?thesis by simp
    next
      case (Cons p ps')
      then have "s = ps' @ t @ ss" using eq by simp
      then have "str_includes s t" using Cons.IH by blast
      then show ?thesis by simp
    qed
  qed
qed

lemma truthy_iff: "truthy x \<longleftrightarrow> (\<exists>s. x = Some s \<and> s \<noteq> [])"
  by (cases x) auto

lemma commands_append: "commands (xs @ ys) = commands xs @ commands ys"
  by (induction xs rule: commands.induct) auto

lemma written_append: "written (xs @ ys) = written xs @ written ys"
  by (induction xs rule: written.induct) auto

lemmas io_defs = ret_def andThen_def tryCatch_def emit_def process_platform_def execAsync_def
  inquirer_confirm_def inquirer_password_def verbose_def console_log_def console_warn_def
  console_error_def spinner_start_def spinner_succeed_def spinner_fail_def getApiKey_def
  setApiKey_def readConfig_def writeConfig_def promptForRestart_def

lemma emit_fields:
  "platform (emit e w) = platform w"
  "execOutcome (emit e w) = execOutcome w"
  "confirmOutcome (emit e w) = confirmOutcome w"
  "passwordOutcome (emit e w) = passwordOutcome w"
  "savedApiKey (emit e w) = savedApiKey w"
  "settingsWritable (emit e w) = settingsWritable w"
  "configFile (emit e w) = configFile w"
  "writeError (emit e w) = writeError w"
  "restartError (emit e w) = restartError w"
  "events (emit e w) = events w @ [e]"
  by (simp_all add: emit_def)

section \<open>Classification of connections and servers\<close>

text \<open>
  C3. For every server, \<open>isRemote\<close> returns true if and only if at least one of its
  connections has type \<^verbatim>\<open>http\<close> and carries a \<^verbatim>\<open>deploymentUrl\<close>, and the flag \<^verbatim>\<open>remote\<close>
  is not explicitly false. So \<^verbatim>\<open>remote === false\<close> forces the result false, and a flag
  that is absent or true does not make a server remote by itself: a server without
  connections is not remote.
\<close>

theorem isRemote_iff:
  "(isRemote s \<longleftrightarrow>
      (\<exists>conn \<in> set (connections s). type conn = ''http'' \<and> deploymentUrl conn \<noteq> None)
      \<and> remote s \<noteq> Some False)
   \<and> (remote s = Some False \<longrightarrow> \<not> isRemote s)
   \<and> (connections s = [] \<longrightarrow> \<not> isRemote s)"
  by (auto simp: isRemote_def list_ex_iff)

theorem isRemote_iff_witness:
  "isRemote \<lparr>connections = [\<lparr>type = ''stdio'', stdioFunction = Some ''npx'', deploymentUrl = None\<rparr>,
                             \<lparr>type = ''http'', stdioFunction = None, deploymentUrl = Some ''https://server.example/mcp''\<rparr>],
             remote = None\<rparr>
   \<and> \<not> isRemote \<lparr>connections = [\<lparr>type = ''http'', stdioFunction = None, deploymentUrl = Some ''https://server.example/mcp''\<rparr>],
             remote = Some False\<rparr>
   \<and> \<not> isRemote \<lparr>connections = [], remote = Some True\<rparr>"
  using isRemote_iff [of "\<lparr>connections = [\<lparr>type = ''stdio'', stdioFunction = Some ''npx'', deploymentUrl = None\<rparr>,
                             \<lparr>type = ''http'', stdioFunction = None, deploymentUrl = Some ''https://server.example/mcp''\<rparr>],
             remote = None\<rparr>"]
    isRemote_iff [of "\<lparr>connections = [\<lparr>type = ''http'', stdioFunction = None, deploymentUrl = Some ''https://server.example/mcp''\<rparr>],
             remote = Some False\<rparr>"]
    isRemote_iff [of "\<lparr>connections = [], remote = Some True\<rparr>"]
  by simp

text \<open>
  C4. \<open>isUVRequired\<close> returns true exactly when the connection has type \<^verbatim>\<open>stdio\<close> and
  its \<^verbatim>\<open>stdioFunction\<close> contains \<^verbatim>\<open>uvx\<close>; \<open>isBunRequired\<close> returns true exactly when the
  connection has type \<^verbatim>\<open>stdio\<close> and its \<^verbatim>\<open>stdioFunction\<close> contains \<^verbatim>\<open>bunx\<close>; a connection
  that is not \<^verbatim>\<open>stdio\<close> or has no \<^verbatim>\<open>stdioFunction\<close> requires neither.
\<close>

theorem runtime_required_iff:
  "(isUVRequired c \<longleftrightarrow>
      type c = ''stdio'' \<and> (\<exists>f ps ss. stdioFunction c = Some f \<and> f = ps @ ''uvx'' @ ss))
   \<and> (isBunRequired c \<longleftrightarrow>
      type c = ''stdio'' \<and> (\<exists>f ps ss. stdioFunction c = Some f \<and> f = ps @ ''bunx'' @ ss))
   \<and> (type c \<noteq> ''stdio'' \<or> stdioFunction c = None \<longrightarrow> \<not> isUVRequired c \<and> \<not> isBunRequired c)"
  by (auto simp: isUVRequired_def isBunRequired_def str_includes_iff split: option.splits)

theorem runtime_required_iff_witness:
  "isUVRequired uvx_connection \<and> \<not> isBunRequired uvx_connection
   \<and> isBunRequired bunx_connection \<and> \<not> isUVRequired bunx_connection
   \<and> \<not> isUVRequired http_connection \<and> \<not> isBunRequired http_connection"
proof -
  have "''uvx mcp-server-fetch'' = [] @ ''uvx'' @ '' mcp-server-fetch''"
    by simp
  then have u: "\<exists>f ps ss. stdioFunction uvx_connection = Some f \<and> f = ps @ ''uvx'' @ ss"
    unfolding uvx_connection_def by (metis ConnectionInfo.select_convs(2))
  have "''bunx mcp-files'' = [] @ ''bunx'' @ '' mcp-files''"
    by simp
  then have b: "\<exists>f ps ss. stdioFunction bunx_connection = Some f \<and> f = ps @ ''bunx'' @ ss"
    unfolding bunx_connection_def by (metis ConnectionInfo.select_convs(2))
  have t: "type uvx_connection = ''stdio''" "type bunx_connection = ''stdio''"
    "type http_connection \<noteq> ''stdio''"
    by (simp_all add: uvx_connection_def bunx_connection_def http_connection_def)
  have 1: "isUVRequired uvx_connection"
    using runtime_required_iff [of uvx_connection] u t(1) by blast
  have 2: "isBunRequired bunx_connection"
    using runtime_required_iff [of bunx_connection] b t(2) by blast
  have 3: "\<not> isUVRequired http_connection \<and> \<not> isBunRequired http_connection"
    using runtime_required_iff [of http_connection] t(3) by blast
  have 4: "\<not> isBunRequired uvx_connection" "\<not> isUVRequired bunx_connection"
    by (simp_all add: isBunRequired_def isUVRequired_def uvx_connection_def bunx_connection_def)
  from 1 2 3 4 show ?thesis by simp
qed

section \<open>The environment of a launched server\<close>

text \<open>
  C10. The result of \<open>getRuntimeEnvironment\<close> has every key of the default environment
  and every key of \<open>baseEnv\<close>; a key of \<open>baseEnv\<close> has the value that \<open>baseEnv\<close> gives it,
  every other key the value of the default environment; with an empty or omitted
  \<open>baseEnv\<close> the result is the default environment.
\<close>

theorem getRuntimeEnvironment_merge:
  "dom (getRuntimeEnvironment defaultEnv (Some baseEnv)) = dom defaultEnv \<union> dom baseEnv
   \<and> (\<forall>k \<in> dom baseEnv. getRuntimeEnvironment defaultEnv (Some baseEnv) k = baseEnv k)
   \<and> (\<forall>k. k \<notin> dom baseEnv \<longrightarrow> getRuntimeEnvironment defaultEnv (Some baseEnv) k = defaultEnv k)
   \<and> getRuntimeEnvironment defaultEnv (Some Map.empty) = defaultEnv
   \<and> getRuntimeEnvironment defaultEnv None = defaultEnv"
  by (auto simp: getRuntimeEnvironment_def map_add_def split: option.splits)

theorem getRuntimeEnvironment_merge_witness:
  "getRuntimeEnvironment [''PATH'' \<mapsto> ''/usr/bin'', ''HOME'' \<mapsto> ''/root''] (Some [''PATH'' \<mapsto> ''/opt/bin'', ''TOKEN'' \<mapsto> ''t'']) ''PATH'' = Some ''/opt/bin''
   \<and> getRuntimeEnvironment [''PATH'' \<mapsto> ''/usr/bin'', ''HOME'' \<mapsto> ''/root''] (Some [''PATH'' \<mapsto> ''/opt/bin'', ''TOKEN'' \<mapsto> ''t'']) ''HOME'' = Some ''/root''
   \<and> dom (getRuntimeEnvironment [''PATH'' \<mapsto> ''/usr/bin'', ''HOME'' \<mapsto> ''/root''] (Some [''PATH'' \<mapsto> ''/opt/bin'', ''TOKEN'' \<mapsto> ''t''])) = {''PATH'', ''HOME'', ''TOKEN''}"
  using getRuntimeEnvironment_merge [of "[''PATH'' \<mapsto> ''/usr/bin'', ''HOME'' \<mapsto> ''/root'']" "[''PATH'' \<mapsto> ''/opt/bin'', ''TOKEN'' \<mapsto> ''t'']"]
  by auto

section \<open>The API key\<close>

text \<open>
  C5. For every non-empty API key given as the argument, \<open>ensureApiKey\<close> returns that
  key and leaves the world as it was: it makes no external call, so it does not call
  \<open>setApiKey\<close>, and the saved key is the one saved before.
\<close>

theorem ensureApiKey_given:
  "apiKey \<noteq> [] \<Longrightarrow>
     ensureApiKey (Some apiKey) w = (Inr apiKey, w)
     \<and> events (snd (ensureApiKey (Some apiKey) w)) = events w
     \<and> savedApiKey (snd (ensureApiKey (Some apiKey) w)) = savedApiKey w"
  by (simp add: ensureApiKey_def ret_def)

theorem ensureApiKey_given_witness:
  "ensureApiKey (Some ''cli-key'') failing_unix_world = (Inr ''cli-key'', failing_unix_world)
   \<and> savedApiKey (snd (ensureApiKey (Some ''cli-key'') failing_unix_world)) = Some ''saved-key''"
  using ensureApiKey_given [of "''cli-key''" failing_unix_world]
  by (simp add: failing_unix_world_def)

text \<open>
  C9. An argument that is the empty string is treated as an absent one: the call
  behaves as the call without argument. It reads the saved key; a saved key that is a
  non-empty string is returned, with no prompt; when there is no saved key (none, or the
  empty string, which is falsy as well) the user is prompted right after the saved key
  was read, and what the prompt returns is the result. Only a non-empty argument is
  returned as it is.
\<close>

theorem ensureApiKey_empty_is_absent:
  "ensureApiKey (Some []) w = ensureApiKey None w
   \<and> (\<forall>k. savedApiKey w = Some k \<and> k \<noteq> [] \<longrightarrow> ensureApiKey None w = (Inr k, emit GetApiKey w))
   \<and> (savedApiKey w = None \<or> savedApiKey w = Some [] \<longrightarrow>
        (\<exists>es. events (snd (ensureApiKey None w)) =
                events w @ [GetApiKey, Password api_key_question] @ es)
        \<and> (\<forall>k. passwordOutcome w api_key_question = Inr k \<longrightarrow> fst (ensureApiKey None w) = Inr k))
   \<and> (\<forall>k. k \<noteq> [] \<longrightarrow> ensureApiKey (Some k) w = (Inr k, w))"
  by (auto simp add: ensureApiKey_def promptForApiKey_def andThen_def ret_def getApiKey_def
        setApiKey_def inquirer_password_def console_warn_def emit_fields emit_def
      split: sum.splits)

theorem ensureApiKey_empty_is_absent_witness:
  "ensureApiKey (Some []) failing_unix_world = (Inr ''saved-key'', emit GetApiKey failing_unix_world)
   \<and> savedApiKey claude_world = None
   \<and> fst (ensureApiKey (Some []) claude_world) = Inr ''key-from-prompt''
   \<and> ensureApiKey (Some ''cli-key'') claude_world = (Inr ''cli-key'', claude_world)"
proof -
  have s: "savedApiKey failing_unix_world = Some ''saved-key''" "savedApiKey claude_world = None"
    "passwordOutcome claude_world api_key_question = Inr ''key-from-prompt''"
    by (simp_all add: failing_unix_world_def claude_world_def)
  have 1: "ensureApiKey (Some []) failing_unix_world = (Inr ''saved-key'', emit GetApiKey failing_unix_world)"
    using ensureApiKey_empty_is_absent [of failing_unix_world] s(1) by simp
  have 2: "fst (ensureApiKey (Some []) claude_world) = Inr ''key-from-prompt''"
    using ensureApiKey_empty_is_absent [of claude_world] s(2,3) by simp
  have 3: "ensureApiKey (Some ''cli-key'') claude_world = (Inr ''cli-key'', claude_world)"
    using ensureApiKey_empty_is_absent [of claude_world] by simp
  from 1 2 3 s(2) show ?thesis by simp
qed

section \<open>The install commands\<close>

lemma uv_commands:
  "confirmOutcome w ''UV package manager is required for Python MCP servers. Would you like to install it?'' = Inr True \<Longrightarrow>
   commands_run promptForUVInstall w =
     (if platform w = ''win32''
      then [uv_powershell]
      else if execOutcome w ''curl -LsSf https://astral.sh/uv/install.sh | sh'' = None
      then [''curl -LsSf https://astral.sh/uv/install.sh | sh'']
      else [''curl -LsSf https://astral.sh/uv/install.sh | sh'', ''wget -qO- https://astral.sh/uv/install.sh | sh''])"
  by (simp add: commands_run_def promptForUVInstall_def io_defs commands_append split: option.splits)

lemma bun_commands:
  "confirmOutcome w ''Bun is required for this operation. Would you like to install it?'' = Inr True \<Longrightarrow>
   commands_run promptForBunInstall w =
     (if platform w = ''win32''
      then [bun_powershell]
      else if execOutcome w ''brew install oven-sh/bun/bun'' = None
      then [''brew install oven-sh/bun/bun'']
      else [''brew install oven-sh/bun/bun'', ''curl -fsSL https://bun.sh/install | bash''])"
  by (simp add: commands_run_def promptForBunInstall_def io_defs commands_append split: option.splits)

lemma sel_ps: "powershell_script uv_powershell" 
  by (simp add: powershell_script_def)
lemma sel_bun_ps: "powershell_script bun_powershell"
  by (simp add: powershell_script_def)

lemma sel_curl: "curl_piped_to_shell uv_curl" 
  by (simp add: curl_piped_to_shell_def)
lemma sel_wget: "wget_piped_to_shell uv_wget" 
  by (simp add: wget_piped_to_shell_def)

text \<open>
  C6, as the code has it. After the user consents, \<open>promptForUVInstall\<close> selects the
  command as the spec describes: the PowerShell script on Windows, and elsewhere the curl
  download piped to a shell, with the wget download attempted exactly when the curl command
  fails. After the user consents, \<open>promptForBunInstall\<close> runs the PowerShell script on
  Windows, and elsewhere the Homebrew install, with the curl download piped to a shell
  attempted exactly when the Homebrew command fails; it has no wget fallback.
\<close>

theorem install_command_selection:
  "(confirmOutcome w uv_question = Inr True \<longrightarrow>
      commands_run promptForUVInstall w =
        (if platform w = ''win32'' then [uv_powershell]
         else if execOutcome w uv_curl = None then [uv_curl]
         else [uv_curl, uv_wget])
      \<and> spec_install_selection w (commands_run promptForUVInstall w))
   \<and> (confirmOutcome w bun_question = Inr True \<longrightarrow>
      commands_run promptForBunInstall w =
        (if platform w = ''win32'' then [bun_powershell]
         else if execOutcome w bun_brew = None then [bun_brew]
         else [bun_brew, bun_curl])
      \<and> (platform w = ''win32'' \<longrightarrow>
           spec_install_selection w (commands_run promptForBunInstall w)))"
  using sel_ps sel_curl sel_wget sel_bun_ps
  by (auto simp add: uv_commands bun_commands spec_install_selection_def simp del: take_Cons_numeral)

theorem install_command_selection_witness:
  "commands_run promptForUVInstall failing_unix_world = [uv_curl, uv_wget]
   \<and> spec_install_selection failing_unix_world (commands_run promptForUVInstall failing_unix_world)
   \<and> commands_run promptForBunInstall failing_unix_world = [bun_brew, bun_curl]"
proof -
  have f: "confirmOutcome failing_unix_world uv_question = Inr True"
    "confirmOutcome failing_unix_world bun_question = Inr True"
    "platform failing_unix_world \<noteq> ''win32''"
    "execOutcome failing_unix_world uv_curl \<noteq> None"
    "execOutcome failing_unix_world bun_brew \<noteq> None"
    by (simp_all add: failing_unix_world_def)
  have uv: "commands_run promptForUVInstall failing_unix_world =
        (if platform failing_unix_world = ''win32'' then [uv_powershell]
         else if execOutcome failing_unix_world uv_curl = None then [uv_curl]
         else [uv_curl, uv_wget])"
    "spec_install_selection failing_unix_world (commands_run promptForUVInstall failing_unix_world)"
    using install_command_selection [of failing_unix_world] f(1) by blast+
  have bun: "commands_run promptForBunInstall failing_unix_world =
        (if platform failing_unix_world = ''win32'' then [bun_powershell]
         else if execOutcome failing_unix_world bun_brew = None then [bun_brew]
         else [bun_brew, bun_curl])"
    using install_command_selection [of failing_unix_world] f(2) by blast
  show ?thesis
    using uv bun f(3,4,5) by simp
qed

text \<open>
  C6, as it is stated, fails for \<open>promptForBunInstall\<close>: where the platform is not
  Windows, the user consents and every command fails, the first command is the Homebrew
  install and not a curl download, and no wget download follows the failed curl command.
\<close>

theorem bun_selection_counterexample:
  "confirmOutcome failing_unix_world bun_question = Inr True
   \<and> platform failing_unix_world \<noteq> ''win32''
   \<and> execOutcome failing_unix_world bun_curl \<noteq> None
   \<and> commands_run promptForBunInstall failing_unix_world = [bun_brew, bun_curl]
   \<and> \<not> spec_install_selection failing_unix_world (commands_run promptForBunInstall failing_unix_world)"
proof -
  have c: "confirmOutcome failing_unix_world bun_question = Inr True"
    by (simp add: failing_unix_world_def)
  have r: "commands_run promptForBunInstall failing_unix_world = [bun_brew, bun_curl]"
    by (simp add: bun_commands [OF c]) (simp add: failing_unix_world_def)
  have "\<not> curl_piped_to_shell bun_brew" by (simp add: curl_piped_to_shell_def)
  then show ?thesis
    unfolding r by (simp add: failing_unix_world_def spec_install_selection_def)
qed

section \<open>Failures of the installers are absorbed\<close>

lemma uv_declined:
  "confirmOutcome w uv_question = Inr False \<Longrightarrow>
   fst (promptForUVInstall w) = Inr False"
  by (simp add: promptForUVInstall_def io_defs)

lemma uv_failed:
  "confirmOutcome w uv_question = Inr True \<Longrightarrow> uv_install_fails w \<Longrightarrow>
   fst (promptForUVInstall w) = Inr False"
  by (auto simp add: promptForUVInstall_def io_defs uv_install_fails_def split: if_splits)

lemma bun_declined:
  "confirmOutcome w bun_question = Inr False \<Longrightarrow>
   fst (promptForBunInstall w) = Inr False"
  by (simp add: promptForBunInstall_def io_defs)

lemma bun_failed:
  "confirmOutcome w bun_question = Inr True \<Longrightarrow> bun_install_fails w \<Longrightarrow>
   fst (promptForBunInstall w) = Inr False"
  by (auto simp add: promptForBunInstall_def io_defs bun_install_fails_def split: if_splits)

lemma ensureUV_absorbs:
  assumes "isUVRequired c" and "execOutcome w ''uvx --version'' \<noteq> None"
    and "confirmOutcome w uv_question = Inr False
         \<or> confirmOutcome w uv_question = Inr True \<and> uv_install_fails w"
  shows "fst (ensureUVInstalled c w) = Inr ()
         \<and> last (events (snd (ensureUVInstalled c w))) =
             ConsoleWarn ''UV is not installed. The server might fail to launch.''"
proof -
  let ?w1 = "emit (Exec ''uvx --version'') (emit (Verbose ''UV installation check required'') w)"
  have c: "confirmOutcome ?w1 uv_question = confirmOutcome w uv_question"
    and p: "platform ?w1 = platform w" and e: "execOutcome ?w1 = execOutcome w"
    by (simp_all add: emit_fields)
  have f: "uv_install_fails ?w1 = uv_install_fails w"
    by (simp add: uv_install_fails_def p e)
  have "fst (promptForUVInstall ?w1) = Inr False"
    using assms(3) uv_declined [of ?w1] uv_failed [of ?w1] c f by auto
  then obtain w2 where w2: "promptForUVInstall ?w1 = (Inr False, w2)"
    by (cases "promptForUVInstall ?w1") auto
  have "ensureUVInstalled c w =
          (Inr (), emit (ConsoleWarn ''UV is not installed. The server might fail to launch.'') w2)"
    using assms(1,2) w2
    by (auto simp add: ensureUVInstalled_def checkUVInstalled_def andThen_def tryCatch_def ret_def
          verbose_def execAsync_def console_warn_def emit_fields)
  then show ?thesis by (simp add: emit_fields)
qed

lemma ensureBun_absorbs:
  assumes "isBunRequired c" and "execOutcome w ''bun --version'' \<noteq> None"
    and "confirmOutcome w bun_question = Inr False
         \<or> confirmOutcome w bun_question = Inr True \<and> bun_install_fails w"
  shows "fst (ensureBunInstalled c w) = Inr ()
         \<and> last (events (snd (ensureBunInstalled c w))) =
             ConsoleWarn ''Bun is not installed. The server might fail to launch.''"
proof -
  let ?w1 = "emit (Exec ''bun --version'') (emit (Verbose ''Bun installation check required'') w)"
  have c: "confirmOutcome ?w1 bun_question = confirmOutcome w bun_question"
    and p: "platform ?w1 = platform w" and e: "execOutcome ?w1 = execOutcome w"
    by (simp_all add: emit_fields)
  have f: "bun_install_fails ?w1 = bun_install_fails w"
    by (simp add: bun_install_fails_def p e)
  have "fst (promptForBunInstall ?w1) = Inr False"
    using assms(3) bun_declined [of ?w1] bun_failed [of ?w1] c f by auto
  then obtain w2 where w2: "promptForBunInstall ?w1 = (Inr False, w2)"
    by (cases "promptForBunInstall ?w1") auto
  have "ensureBunInstalled c w =
          (Inr (), emit (ConsoleWarn ''Bun is not installed. The server might fail to launch.'') w2)"
    using assms(1,2) w2
    by (auto simp add: ensureBunInstalled_def checkBunInstalled_def andThen_def tryCatch_def ret_def
          verbose_def execAsync_def console_warn_def emit_fields)
  then show ?thesis by (simp add: emit_fields)
qed

text \<open>
  C7. Where the connection requires the runtime, the runtime is absent (its
  \<^verbatim>\<open>--version\<close> command fails), and the user declines the installation or consents and
  the install script fails, \<open>ensureUVInstalled\<close> and \<open>ensureBunInstalled\<close> return without
  an exception, and the last thing they do is to print the warning that the server
  might fail to launch.
\<close>

theorem ensure_installed_absorbs_failure:
  "(isUVRequired c \<and> execOutcome w ''uvx --version'' \<noteq> None
      \<and> (confirmOutcome w uv_question = Inr False
          \<or> confirmOutcome w uv_question = Inr True \<and> uv_install_fails w)
    \<longrightarrow> fst (ensureUVInstalled c w) = Inr ()
        \<and> last (events (snd (ensureUVInstalled c w))) =
            ConsoleWarn ''UV is not installed. The server might fail to launch.'')
   \<and> (isBunRequired c \<and> execOutcome w ''bun --version'' \<noteq> None
      \<and> (confirmOutcome w bun_question = Inr False
          \<or> confirmOutcome w bun_question = Inr True \<and> bun_install_fails w)
    \<longrightarrow> fst (ensureBunInstalled c w) = Inr ()
        \<and> last (events (snd (ensureBunInstalled c w))) =
            ConsoleWarn ''Bun is not installed. The server might fail to launch.'')"
  using ensureUV_absorbs [of c w] ensureBun_absorbs [of c w] by blast

theorem ensure_installed_absorbs_failure_witness:
  "fst (ensureUVInstalled uvx_connection failing_unix_world) = Inr ()
   \<and> last (events (snd (ensureUVInstalled uvx_connection failing_unix_world))) =
       ConsoleWarn ''UV is not installed. The server might fail to launch.''
   \<and> fst (ensureBunInstalled bunx_connection failing_unix_world) = Inr ()
   \<and> last (events (snd (ensureBunInstalled bunx_connection failing_unix_world))) =
       ConsoleWarn ''Bun is not installed. The server might fail to launch.''"
proof -
  have r: "isUVRequired uvx_connection" "isBunRequired bunx_connection"
    by (simp_all add: isUVRequired_def isBunRequired_def uvx_connection_def bunx_connection_def)
  have f: "uv_install_fails failing_unix_world" "bun_install_fails failing_unix_world"
    "execOutcome failing_unix_world ''uvx --version'' \<noteq> None"
    "execOutcome failing_unix_world ''bun --version'' \<noteq> None"
    "confirmOutcome failing_unix_world uv_question = Inr True"
    "confirmOutcome failing_unix_world bun_question = Inr True"
    by (simp_all add: uv_install_fails_def bun_install_fails_def failing_unix_world_def)
  show ?thesis
    using ensure_installed_absorbs_failure [of uvx_connection failing_unix_world]
      ensure_installed_absorbs_failure [of bunx_connection failing_unix_world] r f
    by blast
qed

section \<open>Installing a server for a client\<close>

lemma install_read_failure:
  assumes "configFile w (client p) = Inl e"
  shows "installServerForClient g p w =
           (Inl e, emit (ReadConfig (client p))
                     (emit (Verbose (''Reading configuration for client: '' @ client p)) w))"
  using assms
  by (simp add: installServerForClient_def andThen_def verbose_def readConfig_def emit_fields)

lemma install_written:
  assumes "configFile w (client p) = Inr config"
  shows "written (events (snd (installServerForClient g p w))) =
           written (events w) @
             [(config\<lparr>mcpServers := js_set (mcpServers config) (g (qualifiedName p)) (serverConfig p)\<rparr>,
               client p)]"
    and "writeError w (client p) = None \<Longrightarrow>
         configFile (snd (installServerForClient g p w)) =
           (configFile w)(client p :=
              Inr (as_stored
                     (config\<lparr>mcpServers :=
                        js_set (mcpServers config) (g (qualifiedName p)) (serverConfig p)\<rparr>)))"
    and "writeError w (client p) = Some e \<Longrightarrow> fst (installServerForClient g p w) = Inl e"
    and "writeError w (client p) = Some e \<Longrightarrow>
         configFile (snd (installServerForClient g p w)) = configFile w"
  using assms
  by (simp_all add: installServerForClient_def andThen_def verbose_def readConfig_def
        writeConfig_def console_log_def promptForRestart_def emit_fields Let_def
        written_append emit_def
      split: option.splits)

lemma install_reports_success:
  assumes "configFile w (client p) = Inr config" and "writeError w (client p) = None"
  shows "ConsoleLog (qualifiedName p @ '' successfully installed for '' @ client p)
           \<in> set (events (snd (installServerForClient g p w)))"
  using assms
  by (simp add: installServerForClient_def andThen_def verbose_def readConfig_def
        writeConfig_def console_log_def promptForRestart_def emit_fields Let_def emit_def
      split: option.splits)

lemma install_succeeds:
  assumes "configFile w (client p) = Inr config" and "writeError w (client p) = None"
    and "restartError w (client p) = None"
  shows "fst (installServerForClient g p w) = Inr ()"
  using assms
  by (simp add: installServerForClient_def andThen_def verbose_def readConfig_def
        writeConfig_def console_log_def promptForRestart_def emit_fields Let_def emit_def)

text \<open>
  The assignment to a name that is an own property, or is not \<^verbatim>\<open>__proto__\<close>, sets the
  own property of that name to the value, and changes no other property and not the
  prototype.
\<close>

lemma js_set_own_property:
  assumes "key \<in> dom (properties obj) \<or> key \<noteq> ''__proto__''"
  shows "js_set obj key v = obj\<lparr>properties := (properties obj)(key \<mapsto> v)\<rparr>"
  using assms by (auto simp add: js_set_def)

text \<open>
  So the install under such a name writes a configuration whose entry at the name is the
  supplied value, with every other entry, the prototype and the rest of the document as
  they were read.
\<close>

lemma install_entry_unless_proto:
  assumes "configFile w (client p) = Inr config"
    and "g (qualifiedName p) \<in> dom (properties (mcpServers config))
         \<or> g (qualifiedName p) \<noteq> ''__proto__''"
  shows "\<exists>cfg. written (events (snd (installServerForClient g p w))) =
                 written (events w) @ [(cfg, client p)]
             \<and> properties (mcpServers cfg) (g (qualifiedName p)) = Some (serverConfig p)
             \<and> (\<forall>name. name \<noteq> g (qualifiedName p) \<longrightarrow>
                  properties (mcpServers cfg) name = properties (mcpServers config) name)
             \<and> prototype (mcpServers cfg) = prototype (mcpServers config)
             \<and> ClientConfig.more cfg = ClientConfig.more config"
  using install_written(1) [OF assms(1), of g] js_set_own_property [OF assms(2)]
  by simp

lemma strip_scope_fetch: "strip_scope ''@acme/fetch'' = ''fetch''"
  by (simp add: strip_scope_def)

text \<open>
  For one, the install of \<^verbatim>\<open>@acme/fetch\<close> for \<^verbatim>\<open>claude\<close> writes a configuration whose
  entry at \<^verbatim>\<open>fetch\<close> is the supplied launch configuration, in place of the entry read.
\<close>

lemma fetch_install_writes_entry:
  "\<exists>cfg. written (events (snd (installServerForClient strip_scope fetch_params claude_world))) =
           [(cfg, ''claude'')]
        \<and> properties (mcpServers cfg) ''fetch'' = Some npx_fetch
        \<and> properties (mcpServers cfg) ''files'' = properties (mcpServers claude_config) ''files''
        \<and> ClientConfig.more cfg = ''theme: dark''"
proof -
  have h: "configFile claude_world (client fetch_params) = Inr claude_config"
    by (simp add: claude_world_def fetch_params_def)
  have p: "client fetch_params = ''claude''" "qualifiedName fetch_params = ''@acme/fetch''"
    "serverConfig fetch_params = npx_fetch"
    by (simp_all add: fetch_params_def)
  have n: "strip_scope (qualifiedName fetch_params) \<in> dom (properties (mcpServers claude_config))
        \<or> strip_scope (qualifiedName fetch_params) \<noteq> ''__proto__''"
    by (simp add: p strip_scope_fetch)
  have e: "events claude_world = []" "ClientConfig.more claude_config = ''theme: dark''"
    by (simp_all add: claude_world_def claude_config_def)
  from install_entry_unless_proto [of claude_world fetch_params claude_config strip_scope, OF h n]
  obtain cfg where
    "written (events (snd (installServerForClient strip_scope fetch_params claude_world))) =
       written (events claude_world) @ [(cfg, client fetch_params)]"
    "properties (mcpServers cfg) (strip_scope (qualifiedName fetch_params)) =
       Some (serverConfig fetch_params)"
    "\<forall>name. name \<noteq> strip_scope (qualifiedName fetch_params) \<longrightarrow>
       properties (mcpServers cfg) name = properties (mcpServers claude_config) name"
    "ClientConfig.more cfg = ClientConfig.more claude_config"
    by blast
  then have "written (events (snd (installServerForClient strip_scope fetch_params claude_world))) =
           [(cfg, ''claude'')]
        \<and> properties (mcpServers cfg) ''fetch'' = Some npx_fetch
        \<and> properties (mcpServers cfg) ''files'' = properties (mcpServers claude_config) ''files''
        \<and> ClientConfig.more cfg = ''theme: dark''"
    by (simp add: p strip_scope_fetch e)
  then show ?thesis by blast
qed

text \<open>
  The assignment to \<^verbatim>\<open>__proto__\<close> on an object that inherits from \<^verbatim>\<open>Object.prototype\<close>
  and has no own property of that name leaves the own properties as they are.
\<close>

lemma js_set_proto_properties:
  assumes "''__proto__'' \<notin> dom (properties obj)" and "prototype obj = ObjectPrototype"
  shows "properties (js_set obj ''__proto__'' v) = properties obj"
  using assms by (simp add: js_set_def reaches_proto_setter_def split: js_value.splits)

lemma claude_config_facts:
  "configFile claude_world ''claude'' = Inr claude_config"
  "writeError claude_world ''claude'' = None"
  "restartError claude_world ''claude'' = None"
  "events claude_world = []"
  "''__proto__'' \<notin> dom (properties (mcpServers claude_config))"
  "prototype (mcpServers claude_config) = ObjectPrototype"
  "dom (properties (mcpServers claude_config)) = {''fetch'', ''files''}"
  by (auto simp add: claude_world_def claude_config_def split: if_splits)

lemma proto_params_facts:
  "client proto_params = ''claude''"
  "qualifiedName proto_params = ''__proto__''"
  "serverConfig proto_params = npx_fetch"
  "strip_scope ''__proto__'' = ''__proto__''"
  by (simp_all add: proto_params_def strip_scope_def)

lemma js_set_proto_claude:
  "claude_config\<lparr>mcpServers := js_set (mcpServers claude_config) ''__proto__'' npx_fetch\<rparr> =
     claude_config_proto"
  using claude_config_facts(5,6)
  by (simp add: js_set_def reaches_proto_setter_def npx_fetch_def claude_config_proto_def)

lemma proto_install_written:
  "written (events (snd (installServerForClient strip_scope proto_params claude_world))) =
     [(claude_config_proto, ''claude'')]"
proof -
  have h: "configFile claude_world (client proto_params) = Inr claude_config"
    by (simp add: proto_params_facts claude_config_facts)
  show ?thesis
    using install_written(1) [OF h, of strip_scope]
    by (simp add: proto_params_facts claude_config_facts(4) js_set_proto_claude)
qed

lemma claude_config_proto_properties:
  "properties (mcpServers claude_config_proto) = properties (mcpServers claude_config)"
  by (simp add: claude_config_proto_def)

text \<open>
  C1. The install of the server name \<^verbatim>\<open>__proto__\<close>, which the normalization leaves as it
  is, with an object as its launch configuration, for a client whose configuration has
  no entry of that name. The install succeeds and reports success; the one configuration
  that it passes to \<open>writeConfig\<close> has the supplied configuration as the prototype of
  \<^verbatim>\<open>mcpServers\<close> and no entry at \<^verbatim>\<open>__proto__\<close>. The entry that is to be written is not
  written.
\<close>

theorem install_proto_writes_no_entry:
  "fst (installServerForClient strip_scope proto_params claude_world) = Inr ()
   \<and> ConsoleLog ''__proto__ successfully installed for claude''
       \<in> set (events (snd (installServerForClient strip_scope proto_params claude_world)))
   \<and> written (events (snd (installServerForClient strip_scope proto_params claude_world))) =
       [(claude_config_proto, ''claude'')]
   \<and> properties (mcpServers claude_config_proto) ''__proto__'' = None
   \<and> properties (mcpServers claude_config_proto) ''__proto__'' \<noteq> Some (serverConfig proto_params)"
proof -
  have h: "configFile claude_world (client proto_params) = Inr claude_config"
    and e: "writeError claude_world (client proto_params) = None"
    and r: "restartError claude_world (client proto_params) = None"
    by (simp_all add: proto_params_facts claude_config_facts)
  have 1: "fst (installServerForClient strip_scope proto_params claude_world) = Inr ()"
    by (rule install_succeeds [OF h e r])
  have 2: "ConsoleLog ''__proto__ successfully installed for claude''
       \<in> set (events (snd (installServerForClient strip_scope proto_params claude_world)))"
    using install_reports_success [OF h e, of strip_scope]
    by (simp add: proto_params_facts)
  have 3: "properties (mcpServers claude_config_proto) ''__proto__'' = None"
    using claude_config_facts(5) by (simp add: claude_config_proto_properties domIff)
  from 1 2 3 proto_install_written show ?thesis by simp
qed

text \<open>
  C2. The same install adds no key. The name \<^verbatim>\<open>__proto__\<close> is not among the names of the
  configuration that was read, and the names of the one configuration passed to
  \<open>writeConfig\<close> are exactly the names read: where one new key is to be added, none is.
  What the install changes instead is the prototype of \<^verbatim>\<open>mcpServers\<close>.
\<close>

theorem install_proto_adds_no_key:
  "''__proto__'' \<notin> dom (properties (mcpServers claude_config))
   \<and> written (events (snd (installServerForClient strip_scope proto_params claude_world))) =
       [(claude_config_proto, ''claude'')]
   \<and> dom (properties (mcpServers claude_config_proto)) = dom (properties (mcpServers claude_config))
   \<and> dom (properties (mcpServers claude_config_proto)) = {''fetch'', ''files''}
   \<and> prototype (mcpServers claude_config_proto) \<noteq> prototype (mcpServers claude_config)"
proof -
  have "prototype (mcpServers claude_config_proto) \<noteq> prototype (mcpServers claude_config)"
    by (simp add: claude_config_proto_def claude_config_def)
  then show ?thesis
    using claude_config_facts(5,7) proto_install_written
    by (simp add: claude_config_proto_properties)
qed

text \<open>
  C8. Where \<open>readConfig\<close> fails, \<open>installServerForClient\<close> fails with the same error,
  \<open>writeConfig\<close> is not called and the configuration files are as they were; where
  \<open>readConfig\<close> succeeds and \<open>writeConfig\<close> fails, \<open>installServerForClient\<close> fails with
  the error of \<open>writeConfig\<close>.
\<close>

theorem install_propagates_config_errors:
  "(configFile w (client p) = Inl e \<longrightarrow>
      fst (installServerForClient g p w) = Inl e
      \<and> written (events (snd (installServerForClient g p w))) = written (events w)
      \<and> configFile (snd (installServerForClient g p w)) = configFile w)
   \<and> (configFile w (client p) = Inr config \<and> writeError w (client p) = Some e \<longrightarrow>
      fst (installServerForClient g p w) = Inl e)"
  using install_written(3) [of w p config e g]
  by (auto simp add: install_read_failure written_append emit_fields)

theorem install_propagates_config_errors_witness:
  "configFile claude_world ''windsurf'' = Inl (Error ''ENOENT'')
   \<and> fst (installServerForClient strip_scope windsurf_params claude_world) = Inl (Error ''ENOENT'')
   \<and> written (events (snd (installServerForClient strip_scope windsurf_params claude_world))) = []
   \<and> configFile (snd (installServerForClient strip_scope windsurf_params claude_world)) =
       configFile claude_world
   \<and> configFile claude_world ''cursor'' = Inr claude_config
   \<and> writeError claude_world ''cursor'' = Some (Error ''EACCES'')
   \<and> fst (installServerForClient strip_scope cursor_params claude_world) = Inl (Error ''EACCES'')"
proof -
  have r: "configFile claude_world (client windsurf_params) = Inl (Error ''ENOENT'')"
    "written (events claude_world) = []"
    by (simp_all add: claude_world_def windsurf_params_def)
  have c: "configFile claude_world (client cursor_params) = Inr claude_config"
    "writeError claude_world (client cursor_params) = Some (Error ''EACCES'')"
    by (simp_all add: claude_world_def cursor_params_def)
  have p: "client windsurf_params = ''windsurf''" "client cursor_params = ''cursor''"
    by (simp_all add: windsurf_params_def cursor_params_def)
  have 1: "fst (installServerForClient strip_scope windsurf_params claude_world) = Inl (Error ''ENOENT'')
      \<and> written (events (snd (installServerForClient strip_scope windsurf_params claude_world))) =
          written (events claude_world)
      \<and> configFile (snd (installServerForClient strip_scope windsurf_params claude_world)) =
          configFile claude_world"
    using install_propagates_config_errors
            [of claude_world windsurf_params "Error ''ENOENT''" strip_scope] r(1)
    by blast
  have 2: "fst (installServerForClient strip_scope cursor_params claude_world) = Inl (Error ''EACCES'')"
    using install_propagates_config_errors
            [of claude_world cursor_params "Error ''EACCES''" strip_scope claude_config] c
    by blast
  show ?thesis
    using 1 2 r c by (simp add: p)
qed

end
